theory Spec2Isabelle
  imports Main "HOL-Library.Sublist"
begin

section \<open>The CLA runner of cla-signature-bot (src/claRunner.ts)\<close>

text \<open>
  \<^verbatim>\<open>ClaRunner.execute\<close> is an \<^verbatim>\<open>async\<close> method that glues calls to collaborators together.
  The embedding makes its effects explicit:
  \<^item> every call that leaves the runner (a collaborator method, the Octokit client, the
    \<^verbatim>\<open>core\<close> logger) is an event of the datatype \<open>call\<close>, and a run yields the list of the
    calls it issued, in the order in which the source issues them;
  \<^item> a promise settles as a value of \<open>error + 'a\<close>: \<open>Inl\<close> is a rejection (a thrown error),
    \<open>Inr\<close> a fulfilment;
  \<^item> the collaborators themselves (\<^verbatim>\<open>PullAuthors\<close>, \<^verbatim>\<open>PullComments\<close>, \<^verbatim>\<open>ClaFileRepository\<close>,
    \<^verbatim>\<open>Allowlist\<close>, \<^verbatim>\<open>BlockchainPoster\<close>, \<^verbatim>\<open>PullCheckRunner\<close>, the classes \<^verbatim>\<open>ClaFile\<close> and
    \<^verbatim>\<open>AuthorMap\<close>) are imported by the source file and are not part of it: they are
    parameters of the model, records of the outcome each method has on each argument.
    The type \<open>'f\<close> is the in-memory CLA file, \<open>'m\<close> the author map.
\<close>

subsection \<open>Data\<close>

datatype error = Error string

type_synonym 'a outcome = "error + 'a"

text \<open>Of an \<^verbatim>\<open>Author\<close> the runner reads the \<^verbatim>\<open>name\<close> only.\<close>

record Author =
  name :: string

text \<open>An element of \<^verbatim>\<open>response.data\<close> of \<^verbatim>\<open>orgs.listMembers\<close>.\<close>

record User =
  login :: string

text \<open>
  \<^verbatim>\<open>context.payload.issue?.pull_request\<close>: the issue may be absent, and so may its
  \<^verbatim>\<open>pull_request\<close> field (\<open>True\<close> when the field is present, hence truthy).
\<close>

record Issue =
  pull_request :: bool

record Payload =
  issue :: "Issue option"

record Context =
  payload :: Payload

record Octokit =
  issues_lock :: "string \<Rightarrow> string \<Rightarrow> nat \<Rightarrow> unit outcome"
  orgs_listMembers :: "string \<Rightarrow> User list outcome"

record IInputSettings =
  payloadAction :: string
  pullRequestNumber :: nat
  localRepositoryOwner :: string
  localRepositoryName :: string
  allowOrganizationMembers :: bool
  octokitLocal :: Octokit

record 'f ClaFileRepository =
  getClaFile :: "'f outcome"
  commitClaFile :: "string \<Rightarrow> unit outcome"

record Allowlist =
  isUserAllowlisted :: "Author \<Rightarrow> bool"

record 'm PullComments =
  getNewSignatures :: "'m \<Rightarrow> Author list outcome"
  setClaComment :: "'m \<Rightarrow> unit outcome"

record PullAuthors =
  getAuthors :: "Author list outcome"

record BlockchainPoster =
  postToBlockchain :: "Author list \<Rightarrow> unit outcome"

record PullCheckRunner =
  rerunLastCheck :: "unit outcome"

text \<open>
  The runner with its collaborators. The last three fields are the methods of the classes
  \<^verbatim>\<open>ClaFile\<close> and \<^verbatim>\<open>AuthorMap\<close> that \<^verbatim>\<open>execute\<close> calls on the objects it is handed:
  \<^verbatim>\<open>claFile.mapSignedAuthors(authors)\<close>, \<^verbatim>\<open>claFile.addSignature(authors)\<close>, which returns the
  signatures it added and changes the file in memory (the changed file is the second
  component), and \<^verbatim>\<open>authorMap.allSigned()\<close>. \<open>github_context\<close> is the global \<^verbatim>\<open>context\<close> of
  \<^verbatim>\<open>@actions/github\<close>.
\<close>

record ('f, 'm) ClaRunner =
  settings :: IInputSettings
  github_context :: Context
  claFileRepository :: "'f ClaFileRepository"
  allowlist :: Allowlist
  pullComments :: "'m PullComments"
  pullAuthors :: PullAuthors
  blockchainPoster :: BlockchainPoster
  pullCheckRunner :: PullCheckRunner
  mapSignedAuthors :: "'f \<Rightarrow> Author list \<Rightarrow> 'm"
  addSignature :: "'f \<Rightarrow> Author list \<Rightarrow> Author list \<times> 'f"
  allSigned :: "'m \<Rightarrow> bool"

subsection \<open>Calls and promises\<close>

datatype 'm call =
    IssuesLock string string nat
  | OrgsListMembers string
  | GetAuthors
  | IsUserAllowlisted Author
  | GetClaFile
  | GetNewSignatures 'm
  | CommitClaFile string
  | PostToBlockchain "Author list"
  | SetClaComment 'm
  | RerunLastCheck
  | CoreInfo string
  | CoreDebug string
  | CoreError string
  | CoreSetFailed string

text \<open>A promise: the calls issued while it was built, and how it settles.\<close>

type_synonym ('m, 'a) promise = "'m call list \<times> 'a outcome"

definition resolve :: "'a \<Rightarrow> ('m, 'a) promise" where
  "resolve x = ([], Inr x)"

text \<open>Calling a collaborator method issues the call; the promise settles as the collaborator says.\<close>

definition invoke :: "'m call \<Rightarrow> 'a outcome \<Rightarrow> ('m, 'a) promise" where
  "invoke c r = ([c], r)"

text \<open>
  \<^verbatim>\<open>const x = await p; k(x)\<close>: a rejection of \<open>p\<close> is thrown, and \<open>k\<close>, the rest of the body,
  never runs. The same combinator puts a synchronous statement (a log line, the filter)
  before the rest of the body.
\<close>

definition await :: "('m, 'a) promise \<Rightarrow> ('a \<Rightarrow> ('m, 'b) promise) \<Rightarrow> ('m, 'b) promise" where
  "await p k =
     (case p of
        (t, Inl e) \<Rightarrow> (t, Inl e)
      | (t, Inr x) \<Rightarrow> (case k x of (t', r) \<Rightarrow> (t @ t', r)))"

text \<open>\<^verbatim>\<open>try { p } catch (error) { h(error) }\<close>\<close>

definition try_catch :: "('m, 'a) promise \<Rightarrow> (error \<Rightarrow> ('m, 'a) promise) \<Rightarrow> ('m, 'a) promise" where
  "try_catch p h =
     (case p of
        (t, Inl e) \<Rightarrow> (case h e of (t', r) \<Rightarrow> (t @ t', r))
      | (t, Inr x) \<Rightarrow> (t, Inr x))"

text \<open>
  \<^verbatim>\<open>Promise.all([p, q, ...])\<close>. The array elements are call expressions, evaluated from left
  to right before anything is awaited, so every call of the array is issued, whatever the
  others do (the methods called are asynchronous: a failure is a rejected promise, not an
  exception thrown at the call). The result is fulfilled when all are, and rejected when
  one is. A rejection does not cancel the other calls, it only ends the wait. When several
  reject, JavaScript reports the rejection that happens first in time, which the model
  does not observe: it reports the first one in array order. No theorem below depends on
  which rejection is reported when there are several.
\<close>

definition promise_all2 ::
  "('m, 'a) promise \<Rightarrow> ('m, 'b) promise \<Rightarrow> ('m, 'a \<times> 'b) promise" where
  "promise_all2 p q =
     (case p of (t, r) \<Rightarrow> case q of (t', r') \<Rightarrow>
        (t @ t',
         case r of
           Inl e \<Rightarrow> Inl e
         | Inr x \<Rightarrow> (case r' of Inl e \<Rightarrow> Inl e | Inr y \<Rightarrow> Inr (x, y))))"

fun promise_all :: "('m, 'a) promise list \<Rightarrow> ('m, 'a list) promise" where
  "promise_all [] = ([], Inr [])"
| "promise_all ((t, r) # ps) =
     (case promise_all ps of (ts, rs) \<Rightarrow>
        (t @ ts,
         case r of
           Inl e \<Rightarrow> Inl e
         | Inr x \<Rightarrow> (case rs of Inl e \<Rightarrow> Inl e | Inr xs \<Rightarrow> Inr (x # xs))))"

text \<open>The logger of \<^verbatim>\<open>@actions/core\<close>: synchronous calls that return nothing.\<close>

definition core_info :: "string \<Rightarrow> ('m, unit) promise" where
  "core_info msg = invoke (CoreInfo msg) (Inr ())"

definition core_debug :: "string \<Rightarrow> ('m, unit) promise" where
  "core_debug msg = invoke (CoreDebug msg) (Inr ())"

definition core_error :: "string \<Rightarrow> ('m, unit) promise" where
  "core_error msg = invoke (CoreError msg) (Inr ())"

definition core_setFailed :: "string \<Rightarrow> ('m, unit) promise" where
  "core_setFailed msg = invoke (CoreSetFailed msg) (Inr ())"

subsection \<open>Strings\<close>

text \<open>A number in a template literal: its decimal digits.\<close>

fun string_of_nat :: "nat \<Rightarrow> string" where
  "string_of_nat n =
     (if n < 10 then [''0123456789'' ! n]
      else string_of_nat (n div 10) @ [''0123456789'' ! (n mod 10)])"

declare string_of_nat.simps [simp del]

text \<open>\<^verbatim>\<open>Array.prototype.join\<close>\<close>

fun join :: "string \<Rightarrow> string list \<Rightarrow> string" where
  "join sep [] = []"
| "join sep [x] = x"
| "join sep (x # y # ys) = x @ sep @ join sep (y # ys)"

subsection \<open>The runner\<close>

text \<open>Lines 98 to 110.\<close>

definition lockPullRequest :: "IInputSettings \<Rightarrow> ('m, unit) promise" where
  "lockPullRequest s =
     await (core_info (''Locking pull request #'' @ string_of_nat (pullRequestNumber s)
                       @ '' to safe guard the pull request's CLA signatures.''))
       (\<lambda>_. try_catch
          (await (invoke (IssuesLock (localRepositoryOwner s) (localRepositoryName s)
                            (pullRequestNumber s))
                    (issues_lock (octokitLocal s) (localRepositoryOwner s)
                       (localRepositoryName s) (pullRequestNumber s)))
             (\<lambda>_. core_info (''Successfully locked pull request #''
                              @ string_of_nat (pullRequestNumber s) @ ''.'')))
          (\<lambda>error. core_error (''Failed to lock pull request #''
                                @ string_of_nat (pullRequestNumber s) @ ''.'')))"

text \<open>Lines 112 to 121.\<close>

definition getOrganizationMembers :: "IInputSettings \<Rightarrow> ('m, string list) promise" where
  "getOrganizationMembers s =
     (if \<not> allowOrganizationMembers s then resolve []
      else
        await (invoke (OrgsListMembers (localRepositoryOwner s))
                 (orgs_listMembers (octokitLocal s) (localRepositoryOwner s)))
          (\<lambda>response_data. resolve (map login response_data)))"

text \<open>
  Line 62, the filter. Its callback asks the allowlist about every author, in order;
  \<^verbatim>\<open>includes\<close> is a pure lookup in the array of member names.
\<close>

definition requiredAuthors_of :: "Allowlist \<Rightarrow> Author list \<Rightarrow> string list \<Rightarrow> Author list" where
  "requiredAuthors_of al rawAuthors organizationMembers =
     filter (\<lambda>a. \<not> isUserAllowlisted al a \<and> \<not> (name a \<in> set organizationMembers)) rawAuthors"

definition filter_required ::
  "Allowlist \<Rightarrow> Author list \<Rightarrow> string list \<Rightarrow> ('m, Author list) promise" where
  "filter_required al rawAuthors organizationMembers =
     (map IsUserAllowlisted rawAuthors, Inr (requiredAuthors_of al rawAuthors organizationMembers))"

text \<open>
  The truth value of \<^verbatim>\<open>context.payload.issue?.pull_request\<close> (line 51): false when the
  payload has no issue, and when the issue has no \<^verbatim>\<open>pull_request\<close>.
\<close>

definition issue_pull_request :: "Context \<Rightarrow> bool" where
  "issue_pull_request c = (case issue (payload c) of None \<Rightarrow> False | Some i \<Rightarrow> pull_request i)"

text \<open>Lines 46 to 96.\<close>

definition execute :: "('f, 'm) ClaRunner \<Rightarrow> ('m, bool) promise" where
  "execute this =
     (if payloadAction (settings this) = ''closed'' then
        await (lockPullRequest (settings this)) (\<lambda>_. resolve True)
      else if payloadAction (settings this) = ''issue_comment''
              \<and> \<not> issue_pull_request (github_context this) then
        await (core_info ''Skipping issue comment'') (\<lambda>_. resolve True)
      else
        await (promise_all2
                 (invoke GetAuthors (getAuthors (pullAuthors this)))
                 (getOrganizationMembers (settings this)))
          (\<lambda>(rawAuthors, organizationMembers).
        await (filter_required (allowlist this) rawAuthors organizationMembers)
          (\<lambda>requiredAuthors.
        if length requiredAuthors = 0 then
          await (core_info ''No committers left after allowlisting. Approving pull request.'')
            (\<lambda>_. resolve True)
        else
          await (core_debug (''Found a total of '' @ string_of_nat (length requiredAuthors)
                             @ '' authors after allowlisting.''))
            (\<lambda>_.
          await (core_debug (''Authors: '' @ join '', '' (map name requiredAuthors)))
            (\<lambda>_.
          await (invoke GetClaFile (getClaFile (claFileRepository this)))
            (\<lambda>claFile.
          let authorMap = mapSignedAuthors this claFile requiredAuthors in
          await (invoke (GetNewSignatures authorMap)
                   (getNewSignatures (pullComments this) authorMap))
            (\<lambda>confirmed.
          case addSignature this claFile confirmed of (newSignature, claFile') \<Rightarrow>
          await
            (if length newSignature > 0 then
               let newNames = join '', '' (map name newSignature) in
               await (core_debug (''Found new signatures: '' @ newNames @ ''.''))
                 (\<lambda>_.
               let authorMap' = mapSignedAuthors this claFile' requiredAuthors in
               await (promise_all
                        [invoke (CommitClaFile (''Add '' @ newNames @ ''.''))
                           (commitClaFile (claFileRepository this) (''Add '' @ newNames @ ''.'')),
                         invoke (PostToBlockchain newSignature)
                           (postToBlockchain (blockchainPoster this) newSignature),
                         invoke (SetClaComment authorMap')
                           (setClaComment (pullComments this) authorMap'),
                         invoke RerunLastCheck (rerunLastCheck (pullCheckRunner this))])
                 (\<lambda>_. resolve authorMap'))
             else
               await (invoke (SetClaComment authorMap)
                        (setClaComment (pullComments this) authorMap))
                 (\<lambda>_. resolve authorMap))
            (\<lambda>authorMap.
          if \<not> allSigned this authorMap then
            await (core_setFailed ''Waiting on additional CLA signatures.'')
              (\<lambda>_. resolve False)
          else resolve True))))))))"

subsection \<open>A concrete run\<close>

text \<open>
  Modelled from the spec: the classes \<^verbatim>\<open>ClaFile\<close> and \<^verbatim>\<open>AuthorMap\<close> and the comment scan of
  \<^verbatim>\<open>PullComments\<close>, whose sources are not in \<^verbatim>\<open>claRunner.ts\<close>. The CLA file is the list of the
  authors who signed; the author map gives each requested author a flag, true when the
  author's name is in the file; adding signatures appends the authors not yet in the file
  and returns only those; a new signature is an unsigned author of the map who posted the
  keyword. They give the theorems about \<open>execute\<close>, which hold for any collaborators, runs
  to be evaluated on.
\<close>

definition spec_mapSignedAuthors :: "Author list \<Rightarrow> Author list \<Rightarrow> (Author \<times> bool) list" where
  "spec_mapSignedAuthors claFile authors = map (\<lambda>a. (a, name a \<in> name ` set claFile)) authors"

definition spec_addSignature :: "Author list \<Rightarrow> Author list \<Rightarrow> Author list \<times> Author list" where
  "spec_addSignature claFile authors =
     (let new = filter (\<lambda>a. name a \<notin> name ` set claFile) authors in (new, claFile @ new))"

definition spec_allSigned :: "(Author \<times> bool) list \<Rightarrow> bool" where
  "spec_allSigned authorMap = list_all snd authorMap"

definition spec_getNewSignatures :: "string list \<Rightarrow> (Author \<times> bool) list \<Rightarrow> Author list" where
  "spec_getNewSignatures commenters authorMap =
     map fst (filter (\<lambda>(a, signed). \<not> signed \<and> name a \<in> set commenters) authorMap)"

text \<open>
  Modelled from the spec: a run on pull request 42 of \<^verbatim>\<open>acme/widgets\<close> in which every call to
  the platform succeeds. The organization has the one member \<^verbatim>\<open>carol\<close>, the allowlist exempts
  \<^verbatim>\<open>dependabot[bot]\<close>. The arguments are the event action, the issue of the payload, the
  commit authors, the authors in the CLA file and the names of those who posted the keyword.
\<close>

definition scenario ::
  "string \<Rightarrow> Issue option \<Rightarrow> Author list \<Rightarrow> Author list \<Rightarrow> string list
     \<Rightarrow> (Author list, (Author \<times> bool) list) ClaRunner" where
  "scenario action iss authors signed commenters =
     \<lparr> settings = \<lparr> payloadAction = action, pullRequestNumber = 42,
                    localRepositoryOwner = ''acme'', localRepositoryName = ''widgets'',
                    allowOrganizationMembers = True,
                    octokitLocal = \<lparr> issues_lock = (\<lambda>owner repo n. Inr ()),
                                     orgs_listMembers = (\<lambda>org. Inr [\<lparr> login = ''carol'' \<rparr>]) \<rparr> \<rparr>,
       github_context = \<lparr> payload = \<lparr> issue = iss \<rparr> \<rparr>,
       claFileRepository = \<lparr> getClaFile = Inr signed, commitClaFile = (\<lambda>msg. Inr ()) \<rparr>,
       allowlist = \<lparr> isUserAllowlisted = (\<lambda>a. name a = ''dependabot[bot]'') \<rparr>,
       pullComments = \<lparr> getNewSignatures = (\<lambda>m. Inr (spec_getNewSignatures commenters m)),
                        setClaComment = (\<lambda>m. Inr ()) \<rparr>,
       pullAuthors = \<lparr> getAuthors = Inr authors \<rparr>,
       blockchainPoster = \<lparr> postToBlockchain = (\<lambda>sigs. Inr ()) \<rparr>,
       pullCheckRunner = \<lparr> rerunLastCheck = Inr () \<rparr>,
       mapSignedAuthors = spec_mapSignedAuthors,
       addSignature = spec_addSignature,
       allSigned = spec_allSigned \<rparr>"

text \<open>
  Modelled from the spec: the same run with one call to the platform failing, or with the
  exemption of organization members switched off.
\<close>

definition lock_fails ::
  "(Author list, (Author \<times> bool) list) ClaRunner \<Rightarrow> (Author list, (Author \<times> bool) list) ClaRunner" where
  "lock_fails r =
     r \<lparr> settings := (settings r)
           \<lparr> octokitLocal := (octokitLocal (settings r))
               \<lparr> issues_lock := (\<lambda>owner repo n. Inl (Error ''HttpError: Not Found'')) \<rparr> \<rparr> \<rparr>"

definition notarization_fails ::
  "(Author list, (Author \<times> bool) list) ClaRunner \<Rightarrow> (Author list, (Author \<times> bool) list) ClaRunner" where
  "notarization_fails r =
     r \<lparr> blockchainPoster := \<lparr> postToBlockchain = (\<lambda>sigs. Inl (Error ''ledger unreachable'')) \<rparr> \<rparr>"

definition members_disabled ::
  "(Author list, (Author \<times> bool) list) ClaRunner \<Rightarrow> (Author list, (Author \<times> bool) list) ClaRunner" where
  "members_disabled r = r \<lparr> settings := (settings r) \<lparr> allowOrganizationMembers := False \<rparr> \<rparr>"

definition alice :: Author where "alice = \<lparr> name = ''alice'' \<rparr>"

definition bob :: Author where "bob = \<lparr> name = ''bob'' \<rparr>"

definition carol :: Author where "carol = \<lparr> name = ''carol'' \<rparr>"

definition dependabot :: Author where "dependabot = \<lparr> name = ''dependabot[bot]'' \<rparr>"

subsection \<open>A run that returns false has raised the failure signal\<close>

text \<open>
  The property that every exit of \<open>execute\<close> has: when the promise is fulfilled with
  \<^verbatim>\<open>false\<close>, the last call issued was \<^verbatim>\<open>core.setFailed\<close>.
\<close>

definition signals_false :: "('m, bool) promise \<Rightarrow> bool" where
  "signals_false p \<longleftrightarrow>
     (snd p = Inr False \<longrightarrow>
        fst p \<noteq> [] \<and> last (fst p) = CoreSetFailed ''Waiting on additional CLA signatures.'')"

section \<open>Properties\<close>

subsection \<open>Running promises\<close>

lemmas promise_defs = resolve_def invoke_def await_def try_catch_def promise_all2_def
  core_info_def core_debug_def core_error_def core_setFailed_def

lemma fst_await:
  "fst (await p k) = fst p @ (case snd p of Inl e \<Rightarrow> [] | Inr x \<Rightarrow> fst (k x))"
  by (cases p) (auto simp: await_def split: sum.splits prod.splits)

lemma snd_await:
  "snd (await p k) = (case snd p of Inl e \<Rightarrow> Inl e | Inr x \<Rightarrow> snd (k x))"
  by (cases p) (auto simp: await_def split: sum.splits prod.splits)

lemma fst_promise_all: "fst (promise_all ps) = concat (map fst ps)"
  by (induction ps rule: promise_all.induct) (auto split: prod.splits)

lemma fst_basic:
  "fst (resolve x) = []"
  "fst (invoke c r) = [c]"
  "fst (core_info msg) = [CoreInfo msg]"
  "fst (core_debug msg) = [CoreDebug msg]"
  "fst (core_error msg) = [CoreError msg]"
  "fst (core_setFailed msg) = [CoreSetFailed msg]"
  "fst (promise_all2 p q) = fst p @ fst q"
  "fst (filter_required al raw mem) = map IsUserAllowlisted raw"
  by (auto simp: promise_defs filter_required_def split: prod.splits)

subsection \<open>The helpers of the runner\<close>

lemma lockPullRequest_eq:
  "lockPullRequest s =
     ([CoreInfo (''Locking pull request #'' @ string_of_nat (pullRequestNumber s)
                 @ '' to safe guard the pull request's CLA signatures.''),
       IssuesLock (localRepositoryOwner s) (localRepositoryName s) (pullRequestNumber s),
       (case issues_lock (octokitLocal s) (localRepositoryOwner s) (localRepositoryName s)
               (pullRequestNumber s) of
          Inl e \<Rightarrow> CoreError (''Failed to lock pull request #''
                     @ string_of_nat (pullRequestNumber s) @ ''.'')
        | Inr u \<Rightarrow> CoreInfo (''Successfully locked pull request #''
                     @ string_of_nat (pullRequestNumber s) @ ''.''))],
      Inr ())"
  by (simp add: lockPullRequest_def promise_defs split: sum.splits)

lemma fst_getOrganizationMembers:
  "fst (getOrganizationMembers s) =
     (if allowOrganizationMembers s then [OrgsListMembers (localRepositoryOwner s)] else [])"
  by (simp add: getOrganizationMembers_def promise_defs split: sum.splits)

subsection \<open>The two ways through the evaluation\<close>

lemma execute_without_new_signature:
  fixes this :: "('f, 'm) ClaRunner"
  assumes "payloadAction (settings this) \<noteq> ''closed''"
    and "payloadAction (settings this) = ''issue_comment''
           \<longrightarrow> issue_pull_request (github_context this)"
    and "getAuthors (pullAuthors this) = Inr rawAuthors"
    and "snd (getOrganizationMembers (settings this) :: ('m, string list) promise)
           = Inr organizationMembers"
    and "requiredAuthors_of (allowlist this) rawAuthors organizationMembers = req"
    and "req \<noteq> []"
    and "getClaFile (claFileRepository this) = Inr claFile"
    and "mapSignedAuthors this claFile req = authorMap"
    and "getNewSignatures (pullComments this) authorMap = Inr confirmed"
    and "addSignature this claFile confirmed = ([], claFile')"
  shows "execute this =
           (GetAuthors
              # fst (getOrganizationMembers (settings this))
              @ map IsUserAllowlisted rawAuthors
              @ [CoreDebug (''Found a total of '' @ string_of_nat (length req)
                            @ '' authors after allowlisting.''),
                 CoreDebug (''Authors: '' @ join '', '' (map name req)),
                 GetClaFile, GetNewSignatures authorMap, SetClaComment authorMap]
              @ (if setClaComment (pullComments this) authorMap = Inr ()
                    \<and> \<not> allSigned this authorMap
                 then [CoreSetFailed ''Waiting on additional CLA signatures.''] else []),
            case setClaComment (pullComments this) authorMap of
              Inl e \<Rightarrow> Inl e | Inr u \<Rightarrow> Inr (allSigned this authorMap))"
proof -
  define t where "t = fst (getOrganizationMembers (settings this) :: ('m, string list) promise)"
  with assms(4) have t: "getOrganizationMembers (settings this) = (t, Inr organizationMembers)"
    by (simp add: prod_eq_iff)
  from assms(1-3,5-) t show ?thesis
    unfolding t_def [symmetric]
    by (simp add: execute_def filter_required_def promise_defs split: sum.splits)
qed

lemma execute_with_new_signature:
  fixes this :: "('f, 'm) ClaRunner"
  assumes "payloadAction (settings this) \<noteq> ''closed''"
    and "payloadAction (settings this) = ''issue_comment''
           \<longrightarrow> issue_pull_request (github_context this)"
    and "getAuthors (pullAuthors this) = Inr rawAuthors"
    and "snd (getOrganizationMembers (settings this) :: ('m, string list) promise)
           = Inr organizationMembers"
    and "requiredAuthors_of (allowlist this) rawAuthors organizationMembers = req"
    and "req \<noteq> []"
    and "getClaFile (claFileRepository this) = Inr claFile"
    and "getNewSignatures (pullComments this) (mapSignedAuthors this claFile req) = Inr confirmed"
    and "addSignature this claFile confirmed = (newSignature, claFile')"
    and "newSignature \<noteq> []"
    and "mapSignedAuthors this claFile' req = authorMap'"
    and "''Add '' @ join '', '' (map name newSignature) @ ''.'' = message"
  shows "execute this =
           (GetAuthors
              # fst (getOrganizationMembers (settings this))
              @ map IsUserAllowlisted rawAuthors
              @ [CoreDebug (''Found a total of '' @ string_of_nat (length req)
                            @ '' authors after allowlisting.''),
                 CoreDebug (''Authors: '' @ join '', '' (map name req)),
                 GetClaFile,
                 GetNewSignatures (mapSignedAuthors this claFile req),
                 CoreDebug (''Found new signatures: '' @ join '', '' (map name newSignature)
                            @ ''.''),
                 CommitClaFile message,
                 PostToBlockchain newSignature,
                 SetClaComment authorMap',
                 RerunLastCheck]
              @ (if commitClaFile (claFileRepository this) message = Inr ()
                    \<and> postToBlockchain (blockchainPoster this) newSignature = Inr ()
                    \<and> setClaComment (pullComments this) authorMap' = Inr ()
                    \<and> rerunLastCheck (pullCheckRunner this) = Inr ()
                    \<and> \<not> allSigned this authorMap'
                 then [CoreSetFailed ''Waiting on additional CLA signatures.''] else []),
            case commitClaFile (claFileRepository this) message of
              Inl e \<Rightarrow> Inl e
            | Inr u \<Rightarrow>
               (case postToBlockchain (blockchainPoster this) newSignature of
                  Inl e \<Rightarrow> Inl e
                | Inr u \<Rightarrow>
                   (case setClaComment (pullComments this) authorMap' of
                      Inl e \<Rightarrow> Inl e
                    | Inr u \<Rightarrow>
                       (case rerunLastCheck (pullCheckRunner this) of
                          Inl e \<Rightarrow> Inl e
                        | Inr u \<Rightarrow> Inr (allSigned this authorMap')))))"
proof -
  define t where "t = fst (getOrganizationMembers (settings this) :: ('m, string list) promise)"
  with assms(4) have t: "getOrganizationMembers (settings this) = (t, Inr organizationMembers)"
    by (simp add: prod_eq_iff)
  from assms(1-3,5-) t show ?thesis
    unfolding t_def [symmetric]
    by (simp add: execute_def filter_required_def promise_defs Let_def split: sum.splits)
qed

subsection \<open>Every exit\<close>

lemma signals_false_await:
  assumes "\<And>x. signals_false (k x)"
  shows "signals_false (await p k)"
proof (cases "snd p")
  case (Inl e)
  then show ?thesis by (simp add: signals_false_def snd_await)
next
  case (Inr x)
  with assms [of x] show ?thesis
    by (auto simp: signals_false_def snd_await fst_await)
qed

lemma signals_false_resolve_True: "signals_false (resolve True)"
  by (simp add: signals_false_def resolve_def)

lemma signals_false_setFailed:
  "signals_false (await (core_setFailed ''Waiting on additional CLA signatures.'')
                    (\<lambda>_. resolve False))"
  by (simp add: signals_false_def promise_defs)

lemma signals_false_execute: "signals_false (execute this)"
  unfolding execute_def Let_def
  by (auto intro!: signals_false_await signals_false_resolve_True signals_false_setFailed
        split: prod.splits)

lemma execute_no_listMembers:
  assumes "\<not> allowOrganizationMembers (settings this)"
  shows "OrgsListMembers org \<notin> set (fst (execute this))"
  unfolding execute_def Let_def using assms
  by (auto simp add: fst_await fst_basic fst_promise_all lockPullRequest_eq
        fst_getOrganizationMembers split: prod.splits sum.splits)

subsection \<open>Evaluating the concrete run\<close>

lemmas scenario_defs = scenario_def lock_fails_def notarization_fails_def members_disabled_def
  spec_mapSignedAuthors_def spec_addSignature_def spec_allSigned_def spec_getNewSignatures_def
  alice_def bob_def carol_def dependabot_def
  getOrganizationMembers_def requiredAuthors_of_def issue_pull_request_def
  resolve_def invoke_def await_def string_of_nat.simps Let_def

section \<open>The claims\<close>

subsection \<open>The result of a run\<close>

text \<open>
  Claim C1. In the evaluation (the event is not \<^verbatim>\<open>closed\<close>, it is not an issue comment outside
  a pull request, and the filter leaves required authors), once the CLA file is read and the
  comments are scanned, let \<open>authorMap\<close> be the last author map computed: the one made
  from the updated file when signatures were added, the first one otherwise. When the
  write-back is fulfilled, \<open>execute\<close> is fulfilled with \<^verbatim>\<open>authorMap.allSigned()\<close>; when it is
  rejected, so is \<open>execute\<close>. A run fulfilled with \<^verbatim>\<open>false\<close> has \<^verbatim>\<open>core.setFailed\<close> as its last
  call, and a run fulfilled with \<^verbatim>\<open>true\<close> never calls it.
\<close>

theorem execute_returns_allSigned:
  fixes this :: "('f, 'm) ClaRunner"
  assumes "payloadAction (settings this) \<noteq> ''closed''"
    and "payloadAction (settings this) = ''issue_comment''
           \<longrightarrow> issue_pull_request (github_context this)"
    and "getAuthors (pullAuthors this) = Inr rawAuthors"
    and "snd (getOrganizationMembers (settings this) :: ('m, string list) promise)
           = Inr organizationMembers"
    and "requiredAuthors_of (allowlist this) rawAuthors organizationMembers = req"
    and "req \<noteq> []"
    and "getClaFile (claFileRepository this) = Inr claFile"
    and "getNewSignatures (pullComments this) (mapSignedAuthors this claFile req) = Inr confirmed"
    and "addSignature this claFile confirmed = (newSignature, claFile')"
    and "authorMap = (if newSignature \<noteq> [] then mapSignedAuthors this claFile' req
                      else mapSignedAuthors this claFile req)"
    and "written =
           (if newSignature \<noteq> [] then
              commitClaFile (claFileRepository this)
                  (''Add '' @ join '', '' (map name newSignature) @ ''.'') = Inr ()
              \<and> postToBlockchain (blockchainPoster this) newSignature = Inr ()
              \<and> setClaComment (pullComments this) authorMap = Inr ()
              \<and> rerunLastCheck (pullCheckRunner this) = Inr ()
            else setClaComment (pullComments this) authorMap = Inr ())"
  shows "(written \<longrightarrow> snd (execute this) = Inr (allSigned this authorMap))
         \<and> (\<not> written \<longrightarrow> (\<exists>e. snd (execute this) = Inl e))
         \<and> (snd (execute this) = Inr False \<longrightarrow>
              fst (execute this) \<noteq> []
              \<and> last (fst (execute this)) = CoreSetFailed ''Waiting on additional CLA signatures.'')
         \<and> (snd (execute this) = Inr True \<longrightarrow>
              (\<forall>reason. CoreSetFailed reason \<notin> set (fst (execute this))))"
proof (cases "newSignature = []")
  case True
  with assms(9,10) have add: "addSignature this claFile confirmed = ([], claFile')"
    and map: "mapSignedAuthors this claFile req = authorMap"
    by simp_all
  from assms(8) map
  have new: "getNewSignatures (pullComments this) authorMap = Inr confirmed"
    by simp
  note run = execute_without_new_signature [OF assms(1-7) map new add]
  from True assms(11) signals_false_execute [of this] show ?thesis
    by (auto simp add: run signals_false_def fst_getOrganizationMembers split: sum.splits)
next
  case False
  with assms(10) have map: "mapSignedAuthors this claFile' req = authorMap"
    by simp
  note run = execute_with_new_signature [OF assms(1-9) False map refl]
  from False assms(11) signals_false_execute [of this] show ?thesis
    by (auto simp add: run signals_false_def fst_getOrganizationMembers split: sum.splits)
qed

theorem execute_returns_allSigned_witness:
  "snd (execute (scenario ''opened'' None [alice, bob] [] [])) = Inr False
   \<and> last (fst (execute (scenario ''opened'' None [alice, bob] [] [])))
       = CoreSetFailed ''Waiting on additional CLA signatures.''"
  using execute_returns_allSigned
          [where this = "scenario ''opened'' None [alice, bob] [] []"
             and rawAuthors = "[alice, bob]"
             and organizationMembers = "[''carol'']"
             and req = "[alice, bob]"
             and claFile = "[]"
             and confirmed = "[]"
             and newSignature = "[]"
             and claFile' = "[]"
             and authorMap = "[(alice, False), (bob, False)]"
             and written = True]
  by (simp add: scenario_defs)

subsection \<open>Writing new signatures back\<close>

text \<open>
  Claim C2. When \<^verbatim>\<open>addSignature\<close> returns new signatures, the author map is computed again
  from the file as \<^verbatim>\<open>addSignature\<close> left it, and the run then issues, in this order,
  \<^verbatim>\<open>commitClaFile\<close> with the message \<^verbatim>\<open>Add \<close> followed by the names of the new signers,
  \<^verbatim>\<open>postToBlockchain\<close> with the new signatures, \<^verbatim>\<open>setClaComment\<close> with the new map and
  \<^verbatim>\<open>rerunLastCheck\<close>. The run is fulfilled, with \<^verbatim>\<open>allSigned()\<close> of the new map, exactly when
  all four calls are fulfilled, and \<^verbatim>\<open>core.setFailed\<close> comes after the four calls.
\<close>

theorem execute_write_back:
  fixes this :: "('f, 'm) ClaRunner"
  assumes "payloadAction (settings this) \<noteq> ''closed''"
    and "payloadAction (settings this) = ''issue_comment''
           \<longrightarrow> issue_pull_request (github_context this)"
    and "getAuthors (pullAuthors this) = Inr rawAuthors"
    and "snd (getOrganizationMembers (settings this) :: ('m, string list) promise)
           = Inr organizationMembers"
    and "requiredAuthors_of (allowlist this) rawAuthors organizationMembers = req"
    and "req \<noteq> []"
    and "getClaFile (claFileRepository this) = Inr claFile"
    and "getNewSignatures (pullComments this) (mapSignedAuthors this claFile req) = Inr confirmed"
    and "addSignature this claFile confirmed = (newSignature, claFile')"
    and "newSignature \<noteq> []"
    and "mapSignedAuthors this claFile' req = authorMap'"
    and "''Add '' @ join '', '' (map name newSignature) @ ''.'' = message"
  shows "fst (execute this) =
           GetAuthors
             # (if allowOrganizationMembers (settings this)
                then [OrgsListMembers (localRepositoryOwner (settings this))] else [])
             @ map IsUserAllowlisted rawAuthors
             @ [CoreDebug (''Found a total of '' @ string_of_nat (length req)
                           @ '' authors after allowlisting.''),
                CoreDebug (''Authors: '' @ join '', '' (map name req)),
                GetClaFile,
                GetNewSignatures (mapSignedAuthors this claFile req),
                CoreDebug (''Found new signatures: '' @ join '', '' (map name newSignature)
                           @ ''.''),
                CommitClaFile message,
                PostToBlockchain newSignature,
                SetClaComment authorMap',
                RerunLastCheck]
             @ (if snd (execute this) = Inr False
                then [CoreSetFailed ''Waiting on additional CLA signatures.''] else [])
         \<and> ((\<exists>b. snd (execute this) = Inr b) \<longleftrightarrow>
               commitClaFile (claFileRepository this) message = Inr ()
               \<and> postToBlockchain (blockchainPoster this) newSignature = Inr ()
               \<and> setClaComment (pullComments this) authorMap' = Inr ()
               \<and> rerunLastCheck (pullCheckRunner this) = Inr ())
         \<and> (\<forall>b. snd (execute this) = Inr b \<longrightarrow> b = allSigned this authorMap')"
proof -
  note run = execute_with_new_signature [OF assms]
  show ?thesis
    by (auto simp add: run fst_getOrganizationMembers split: sum.splits)
qed

theorem execute_write_back_witness:
  "fst (execute (scenario ''opened'' None [alice, bob, carol, dependabot] [] [''alice''])) =
     [GetAuthors, OrgsListMembers ''acme'',
      IsUserAllowlisted alice, IsUserAllowlisted bob, IsUserAllowlisted carol,
      IsUserAllowlisted dependabot,
      CoreDebug ''Found a total of 2 authors after allowlisting.'',
      CoreDebug ''Authors: alice, bob'',
      GetClaFile,
      GetNewSignatures [(alice, False), (bob, False)],
      CoreDebug ''Found new signatures: alice.'',
      CommitClaFile ''Add alice.'',
      PostToBlockchain [alice],
      SetClaComment [(alice, True), (bob, False)],
      RerunLastCheck,
      CoreSetFailed ''Waiting on additional CLA signatures.'']
   \<and> snd (execute (scenario ''opened'' None [alice, bob, carol, dependabot] [] [''alice'']))
       = Inr False"
  using execute_write_back
          [where this = "scenario ''opened'' None [alice, bob, carol, dependabot] [] [''alice'']"
             and rawAuthors = "[alice, bob, carol, dependabot]"
             and organizationMembers = "[''carol'']"
             and req = "[alice, bob]"
             and claFile = "[]"
             and confirmed = "[alice]"
             and newSignature = "[alice]"
             and claFile' = "[alice]"
             and authorMap' = "[(alice, True), (bob, False)]"
             and message = "''Add alice.''"]
  by (auto simp add: scenario_defs)

subsection \<open>The required authors\<close>

text \<open>
  Claim C3. The filter of line 62 asks the allowlist about every fetched author and keeps
  the authors that are neither allowlisted nor named in the list of organization members:
  the result is that filter of the fetched list, it is a subsequence of the fetched list
  (the order is kept), and no allowlisted author and no organization member is in it.
\<close>

theorem required_authors_filter:
  "filter_required al rawAuthors organizationMembers =
     (map IsUserAllowlisted rawAuthors,
      Inr (filter (\<lambda>a. \<not> (isUserAllowlisted al a \<or> name a \<in> set organizationMembers))
             rawAuthors))
   \<and> subseq (requiredAuthors_of al rawAuthors organizationMembers) rawAuthors
   \<and> (\<forall>A \<in> set rawAuthors.
         isUserAllowlisted al A \<or> name A \<in> set organizationMembers
         \<longrightarrow> A \<notin> set (requiredAuthors_of al rawAuthors organizationMembers))"
  by (simp add: filter_required_def requiredAuthors_of_def)

theorem required_authors_filter_witness:
  "requiredAuthors_of \<lparr> isUserAllowlisted = (\<lambda>a. name a = ''dependabot[bot]'') \<rparr>
       [alice, bob, carol, dependabot] [''carol''] = [alice, bob]
   \<and> subseq [alice, bob] [alice, bob, carol, dependabot]
   \<and> carol \<notin> set (requiredAuthors_of \<lparr> isUserAllowlisted = (\<lambda>a. name a = ''dependabot[bot]'') \<rparr>
                       [alice, bob, carol, dependabot] [''carol''])
   \<and> dependabot \<notin> set (requiredAuthors_of \<lparr> isUserAllowlisted = (\<lambda>a. name a = ''dependabot[bot]'') \<rparr>
                            [alice, bob, carol, dependabot] [''carol''])"
  using required_authors_filter
          [of "\<lparr> isUserAllowlisted = (\<lambda>a. name a = ''dependabot[bot]'') \<rparr>"
              "[alice, bob, carol, dependabot]" "[''carol'']"]
  by (simp add: filter_required_def alice_def bob_def carol_def dependabot_def)

subsection \<open>The closed event\<close>

text \<open>
  Claim C4. When the action of the event is \<^verbatim>\<open>closed\<close>, \<open>execute\<close> logs, calls the lock of the
  platform once, logs how the lock went and is fulfilled with \<^verbatim>\<open>true\<close>, whatever the lock
  did and whatever the signatures are. These three calls are all the calls of the run: no
  author is fetched, no CLA file read, no comment written, nothing committed.
\<close>

theorem execute_closed:
  fixes this :: "('f, 'm) ClaRunner"
  assumes "payloadAction (settings this) = ''closed''"
  shows "execute this =
           ([CoreInfo (''Locking pull request #''
                       @ string_of_nat (pullRequestNumber (settings this))
                       @ '' to safe guard the pull request's CLA signatures.''),
             IssuesLock (localRepositoryOwner (settings this))
               (localRepositoryName (settings this)) (pullRequestNumber (settings this)),
             (case issues_lock (octokitLocal (settings this))
                     (localRepositoryOwner (settings this))
                     (localRepositoryName (settings this))
                     (pullRequestNumber (settings this)) of
                Inl e \<Rightarrow> CoreError (''Failed to lock pull request #''
                           @ string_of_nat (pullRequestNumber (settings this)) @ ''.'')
              | Inr u \<Rightarrow> CoreInfo (''Successfully locked pull request #''
                           @ string_of_nat (pullRequestNumber (settings this)) @ ''.''))],
            Inr True)"
  using assms by (simp add: execute_def lockPullRequest_eq await_def resolve_def)

theorem execute_closed_witness:
  "execute (scenario ''closed'' None [alice, bob] [] []) =
     ([CoreInfo ''Locking pull request #42 to safe guard the pull request's CLA signatures.'',
       IssuesLock ''acme'' ''widgets'' 42,
       CoreInfo ''Successfully locked pull request #42.''], Inr True)"
  using execute_closed [of "scenario ''closed'' None [alice, bob] [] []"]
  by (simp add: scenario_def string_of_nat.simps)

subsection \<open>A notarization that fails\<close>

text \<open>
  Claim C5, as the code has it. The four calls of the write-back are awaited together with
  \<^verbatim>\<open>Promise.all\<close> and nothing catches a rejection. When \<^verbatim>\<open>postToBlockchain\<close> is rejected, the
  commit, the comment refresh and the check rerun have been issued all the same, but
  \<open>execute\<close> is rejected: with the error of the notarization when the other three calls are
  fulfilled. No pass or fail is determined: the run returns no boolean and does not call
  \<^verbatim>\<open>core.setFailed\<close>.
\<close>

theorem execute_notarization_failure_propagates:
  fixes this :: "('f, 'm) ClaRunner"
  assumes "payloadAction (settings this) \<noteq> ''closed''"
    and "payloadAction (settings this) = ''issue_comment''
           \<longrightarrow> issue_pull_request (github_context this)"
    and "getAuthors (pullAuthors this) = Inr rawAuthors"
    and "snd (getOrganizationMembers (settings this) :: ('m, string list) promise)
           = Inr organizationMembers"
    and "requiredAuthors_of (allowlist this) rawAuthors organizationMembers = req"
    and "req \<noteq> []"
    and "getClaFile (claFileRepository this) = Inr claFile"
    and "getNewSignatures (pullComments this) (mapSignedAuthors this claFile req) = Inr confirmed"
    and "addSignature this claFile confirmed = (newSignature, claFile')"
    and "newSignature \<noteq> []"
    and "mapSignedAuthors this claFile' req = authorMap'"
    and "''Add '' @ join '', '' (map name newSignature) @ ''.'' = message"
    and "postToBlockchain (blockchainPoster this) newSignature = Inl e"
  shows "(\<exists>e'. snd (execute this) = Inl e')
         \<and> (commitClaFile (claFileRepository this) message = Inr ()
              \<and> setClaComment (pullComments this) authorMap' = Inr ()
              \<and> rerunLastCheck (pullCheckRunner this) = Inr ()
              \<longrightarrow> snd (execute this) = Inl e)
         \<and> CommitClaFile message \<in> set (fst (execute this))
         \<and> PostToBlockchain newSignature \<in> set (fst (execute this))
         \<and> SetClaComment authorMap' \<in> set (fst (execute this))
         \<and> RerunLastCheck \<in> set (fst (execute this))
         \<and> (\<forall>reason. CoreSetFailed reason \<notin> set (fst (execute this)))"
proof -
  note run = execute_with_new_signature [OF assms(1-12)]
  from assms(13) show ?thesis
    by (auto simp add: run fst_getOrganizationMembers split: sum.splits)
qed

theorem execute_notarization_failure_propagates_witness:
  "snd (execute (notarization_fails (scenario ''opened'' None [alice, bob] [] [''alice''])))
     = Inl (Error ''ledger unreachable'')
   \<and> CommitClaFile ''Add alice.''
       \<in> set (fst (execute (notarization_fails (scenario ''opened'' None [alice, bob] [] [''alice'']))))
   \<and> SetClaComment [(alice, True), (bob, False)]
       \<in> set (fst (execute (notarization_fails (scenario ''opened'' None [alice, bob] [] [''alice'']))))
   \<and> RerunLastCheck
       \<in> set (fst (execute (notarization_fails (scenario ''opened'' None [alice, bob] [] [''alice'']))))
   \<and> CoreSetFailed ''Waiting on additional CLA signatures.''
       \<notin> set (fst (execute (notarization_fails (scenario ''opened'' None [alice, bob] [] [''alice'']))))"
  using execute_notarization_failure_propagates
          [where this = "notarization_fails (scenario ''opened'' None [alice, bob] [] [''alice''])"
             and rawAuthors = "[alice, bob]"
             and organizationMembers = "[''carol'']"
             and req = "[alice, bob]"
             and claFile = "[]"
             and confirmed = "[alice]"
             and newSignature = "[alice]"
             and claFile' = "[alice]"
             and authorMap' = "[(alice, True), (bob, False)]"
             and message = "''Add alice.''"
             and e = "Error ''ledger unreachable''"]
  by (simp add: scenario_defs)

text \<open>
  The claim as the specification states it, that the run still comes to its pass or fail
  when only the notarization fails, does not hold: alice and bob are required, alice
  posted the keyword, the ledger is unreachable and every other call succeeds. The run issues
  the four calls and is rejected with the error of the ledger.
\<close>

theorem notarization_failure_aborts_counterexample:
  "commitClaFile
       (claFileRepository
          (notarization_fails (scenario ''opened'' None [alice, bob] [] [''alice''])))
       ''Add alice.'' = Inr ()
   \<and> setClaComment
         (pullComments (notarization_fails (scenario ''opened'' None [alice, bob] [] [''alice''])))
         [(alice, True), (bob, False)] = Inr ()
   \<and> rerunLastCheck
         (pullCheckRunner (notarization_fails (scenario ''opened'' None [alice, bob] [] [''alice''])))
       = Inr ()
   \<and> execute (notarization_fails (scenario ''opened'' None [alice, bob] [] [''alice''])) =
       ([GetAuthors, OrgsListMembers ''acme'', IsUserAllowlisted alice, IsUserAllowlisted bob,
         CoreDebug ''Found a total of 2 authors after allowlisting.'',
         CoreDebug ''Authors: alice, bob'',
         GetClaFile,
         GetNewSignatures [(alice, False), (bob, False)],
         CoreDebug ''Found new signatures: alice.'',
         CommitClaFile ''Add alice.'',
         PostToBlockchain [alice],
         SetClaComment [(alice, True), (bob, False)],
         RerunLastCheck],
        Inl (Error ''ledger unreachable''))"
  by (simp add: execute_def filter_required_def promise_all2_def core_debug_def
        core_setFailed_def core_info_def scenario_defs Let_def)

subsection \<open>No new signature\<close>

text \<open>
  Claim C6. When the evaluation finds no new signature, the run after the scan of the
  comments is one \<^verbatim>\<open>setClaComment\<close> with the author map computed before the scan, followed by
  \<^verbatim>\<open>core.setFailed\<close> when the comment is written and an author has not signed. No
  \<^verbatim>\<open>commitClaFile\<close>, \<^verbatim>\<open>postToBlockchain\<close> or \<^verbatim>\<open>rerunLastCheck\<close> is issued, so the CLA file in
  the repository is left as it was.
\<close>

theorem execute_no_new_signature:
  fixes this :: "('f, 'm) ClaRunner"
  assumes "payloadAction (settings this) \<noteq> ''closed''"
    and "payloadAction (settings this) = ''issue_comment''
           \<longrightarrow> issue_pull_request (github_context this)"
    and "getAuthors (pullAuthors this) = Inr rawAuthors"
    and "snd (getOrganizationMembers (settings this) :: ('m, string list) promise)
           = Inr organizationMembers"
    and "requiredAuthors_of (allowlist this) rawAuthors organizationMembers = req"
    and "req \<noteq> []"
    and "getClaFile (claFileRepository this) = Inr claFile"
    and "mapSignedAuthors this claFile req = authorMap"
    and "getNewSignatures (pullComments this) authorMap = Inr confirmed"
    and "addSignature this claFile confirmed = ([], claFile')"
  shows "fst (execute this) =
           GetAuthors
             # (if allowOrganizationMembers (settings this)
                then [OrgsListMembers (localRepositoryOwner (settings this))] else [])
             @ map IsUserAllowlisted rawAuthors
             @ [CoreDebug (''Found a total of '' @ string_of_nat (length req)
                           @ '' authors after allowlisting.''),
                CoreDebug (''Authors: '' @ join '', '' (map name req)),
                GetClaFile, GetNewSignatures authorMap, SetClaComment authorMap]
             @ (if setClaComment (pullComments this) authorMap = Inr ()
                   \<and> \<not> allSigned this authorMap
                then [CoreSetFailed ''Waiting on additional CLA signatures.''] else [])
         \<and> (\<forall>message. CommitClaFile message \<notin> set (fst (execute this)))
         \<and> (\<forall>signatures. PostToBlockchain signatures \<notin> set (fst (execute this)))
         \<and> RerunLastCheck \<notin> set (fst (execute this))
         \<and> filter (\<lambda>c. \<exists>m. c = SetClaComment m) (fst (execute this))
             = [SetClaComment authorMap]
         \<and> (setClaComment (pullComments this) authorMap = Inr ()
              \<longrightarrow> snd (execute this) = Inr (allSigned this authorMap))"
proof -
  note run = execute_without_new_signature [OF assms]
  have trace: "fst (execute this) =
           GetAuthors
             # (if allowOrganizationMembers (settings this)
                then [OrgsListMembers (localRepositoryOwner (settings this))] else [])
             @ map IsUserAllowlisted rawAuthors
             @ [CoreDebug (''Found a total of '' @ string_of_nat (length req)
                           @ '' authors after allowlisting.''),
                CoreDebug (''Authors: '' @ join '', '' (map name req)),
                GetClaFile, GetNewSignatures authorMap, SetClaComment authorMap]
             @ (if setClaComment (pullComments this) authorMap = Inr ()
                   \<and> \<not> allSigned this authorMap
                then [CoreSetFailed ''Waiting on additional CLA signatures.''] else [])"
    by (simp add: run fst_getOrganizationMembers)
  have no_commit: "CommitClaFile message \<notin> set (fst (execute this))" for message
    unfolding trace by auto
  have no_post: "PostToBlockchain signatures \<notin> set (fst (execute this))" for signatures
    unfolding trace by auto
  have no_rerun: "RerunLastCheck \<notin> set (fst (execute this))"
    unfolding trace by auto
  have one_comment: "filter (\<lambda>c. \<exists>m. c = SetClaComment m) (fst (execute this))
      = [SetClaComment authorMap]"
    unfolding trace by (simp add: filter_map o_def)
  have result: "snd (execute this) = Inr (allSigned this authorMap)"
    if "setClaComment (pullComments this) authorMap = Inr ()"
    using that by (simp add: run)
  from no_commit no_post no_rerun one_comment result show ?thesis
    unfolding trace [symmetric] by blast
qed

theorem execute_no_new_signature_witness:
  "fst (execute (scenario ''opened'' None [alice] [alice] [])) =
     [GetAuthors, OrgsListMembers ''acme'', IsUserAllowlisted alice,
      CoreDebug ''Found a total of 1 authors after allowlisting.'',
      CoreDebug ''Authors: alice'',
      GetClaFile,
      GetNewSignatures [(alice, True)],
      SetClaComment [(alice, True)]]
   \<and> CommitClaFile ''Add alice.'' \<notin> set (fst (execute (scenario ''opened'' None [alice] [alice] [])))
   \<and> PostToBlockchain [alice] \<notin> set (fst (execute (scenario ''opened'' None [alice] [alice] [])))
   \<and> RerunLastCheck \<notin> set (fst (execute (scenario ''opened'' None [alice] [alice] [])))
   \<and> snd (execute (scenario ''opened'' None [alice] [alice] [])) = Inr True"
  using execute_no_new_signature
          [where this = "scenario ''opened'' None [alice] [alice] []"
             and rawAuthors = "[alice]"
             and organizationMembers = "[''carol'']"
             and req = "[alice]"
             and claFile = "[alice]"
             and authorMap = "[(alice, True)]"
             and confirmed = "[]"
             and claFile' = "[alice]"]
  by (simp add: scenario_defs)

subsection \<open>No author left to sign\<close>

text \<open>
  Claim C7. When the filter leaves no required author, \<open>execute\<close> is fulfilled with \<^verbatim>\<open>true\<close>
  at once. The calls of the run are the two fetches, the questions to the allowlist and one
  log line: the CLA file is not loaded, and there is no comment, commit, notarization or
  check rerun.
\<close>

theorem execute_no_required_authors:
  fixes this :: "('f, 'm) ClaRunner"
  assumes "payloadAction (settings this) \<noteq> ''closed''"
    and "payloadAction (settings this) = ''issue_comment''
           \<longrightarrow> issue_pull_request (github_context this)"
    and "getAuthors (pullAuthors this) = Inr rawAuthors"
    and "snd (getOrganizationMembers (settings this) :: ('m, string list) promise)
           = Inr organizationMembers"
    and "requiredAuthors_of (allowlist this) rawAuthors organizationMembers = []"
  shows "execute this =
           (GetAuthors
              # (if allowOrganizationMembers (settings this)
                 then [OrgsListMembers (localRepositoryOwner (settings this))] else [])
              @ map IsUserAllowlisted rawAuthors
              @ [CoreInfo ''No committers left after allowlisting. Approving pull request.''],
            Inr True)"
proof -
  define t where "t = fst (getOrganizationMembers (settings this) :: ('m, string list) promise)"
  with assms(4) have t: "getOrganizationMembers (settings this) = (t, Inr organizationMembers)"
    by (simp add: prod_eq_iff)
  from assms(1-3,5) t have "execute this =
      (GetAuthors # t @ map IsUserAllowlisted rawAuthors
         @ [CoreInfo ''No committers left after allowlisting. Approving pull request.''],
       Inr True)"
    by (simp add: execute_def filter_required_def promise_defs)
  then show ?thesis
    by (simp add: t_def fst_getOrganizationMembers)
qed

theorem execute_no_required_authors_witness:
  "execute (scenario ''opened'' None [carol, dependabot] [] [''carol'']) =
     ([GetAuthors, OrgsListMembers ''acme'', IsUserAllowlisted carol,
       IsUserAllowlisted dependabot,
       CoreInfo ''No committers left after allowlisting. Approving pull request.''],
      Inr True)"
  using execute_no_required_authors
          [of "scenario ''opened'' None [carol, dependabot] [] [''carol'']"
              "[carol, dependabot]" "[''carol'']"]
  by (simp add: scenario_def getOrganizationMembers_def requiredAuthors_of_def promise_defs
        carol_def dependabot_def)

subsection \<open>An issue comment outside a pull request\<close>

text \<open>
  Claim C8. When the action is \<^verbatim>\<open>issue_comment\<close> and the issue of the payload is not a pull
  request, \<open>execute\<close> is fulfilled with \<^verbatim>\<open>true\<close> and the only call of the run is the log line
  \<^verbatim>\<open>Skipping issue comment\<close>: no collaborator is called.
\<close>

theorem execute_skips_issue_comment:
  assumes "payloadAction (settings this) = ''issue_comment''"
    and "\<not> issue_pull_request (github_context this)"
  shows "execute this = ([CoreInfo ''Skipping issue comment''], Inr True)"
  using assms by (simp add: execute_def promise_defs)

theorem execute_skips_issue_comment_witness:
  "execute (scenario ''issue_comment'' (Some \<lparr> pull_request = False \<rparr>) [alice, bob] [] [''alice''])
     = ([CoreInfo ''Skipping issue comment''], Inr True)"
  using execute_skips_issue_comment
          [of "scenario ''issue_comment'' (Some \<lparr> pull_request = False \<rparr>) [alice, bob] [] [''alice'']"]
  by (simp add: scenario_def issue_pull_request_def)

subsection \<open>A lock that fails\<close>

text \<open>
  Claim C9. When the lock call of the platform is rejected, \<open>lockPullRequest\<close> logs the failure
  with \<^verbatim>\<open>core.error\<close> and is fulfilled all the same, so \<open>execute\<close> on a \<^verbatim>\<open>closed\<close> event is
  fulfilled with \<^verbatim>\<open>true\<close>: the error does not reach the caller.
\<close>

theorem lock_failure_is_swallowed:
  fixes this :: "('f, 'm) ClaRunner"
  assumes "payloadAction (settings this) = ''closed''"
    and "issues_lock (octokitLocal (settings this)) (localRepositoryOwner (settings this))
           (localRepositoryName (settings this)) (pullRequestNumber (settings this)) = Inl e"
  shows "(lockPullRequest (settings this) :: ('m, unit) promise) =
           ([CoreInfo (''Locking pull request #''
                       @ string_of_nat (pullRequestNumber (settings this))
                       @ '' to safe guard the pull request's CLA signatures.''),
             IssuesLock (localRepositoryOwner (settings this))
               (localRepositoryName (settings this)) (pullRequestNumber (settings this)),
             CoreError (''Failed to lock pull request #''
                        @ string_of_nat (pullRequestNumber (settings this)) @ ''.'')],
            Inr ())
         \<and> snd (execute this) = Inr True
         \<and> CoreError (''Failed to lock pull request #''
                      @ string_of_nat (pullRequestNumber (settings this)) @ ''.'')
             \<in> set (fst (execute this))"
  using assms by (simp add: execute_def lockPullRequest_eq await_def resolve_def)

theorem lock_failure_is_swallowed_witness:
  "lockPullRequest (settings (lock_fails (scenario ''closed'' None [alice] [] []))) =
     ([CoreInfo ''Locking pull request #42 to safe guard the pull request's CLA signatures.'',
       IssuesLock ''acme'' ''widgets'' 42,
       CoreError ''Failed to lock pull request #42.''] :: (Author \<times> bool) list call list, Inr ())
   \<and> snd (execute (lock_fails (scenario ''closed'' None [alice] [] []))) = Inr True
   \<and> CoreError ''Failed to lock pull request #42.''
       \<in> set (fst (execute (lock_fails (scenario ''closed'' None [alice] [] []))))"
  using lock_failure_is_swallowed
          [of "lock_fails (scenario ''closed'' None [alice] [] [])" "Error ''HttpError: Not Found''"]
  by (simp add: scenario_def lock_fails_def string_of_nat.simps)

subsection \<open>The exemption of organization members switched off\<close>

text \<open>
  Claim C10. When \<^verbatim>\<open>allowOrganizationMembers\<close> is off, \<open>getOrganizationMembers\<close> is fulfilled
  with the empty list without calling the platform, no run calls \<^verbatim>\<open>orgs.listMembers\<close>, and the
  filter against the empty list keeps every author the allowlist does not exempt: in the
  evaluation, the authors that the run reports as required are all of these.
\<close>

theorem organization_exemption_disabled:
  fixes this :: "('f, 'm) ClaRunner"
  assumes "\<not> allowOrganizationMembers (settings this)"
  shows "(getOrganizationMembers (settings this) :: ('m, string list) promise) = ([], Inr [])
         \<and> (\<forall>org. OrgsListMembers org \<notin> set (fst (execute this)))
         \<and> (\<forall>rawAuthors.
               requiredAuthors_of (allowlist this) rawAuthors [] =
                 filter (\<lambda>a. \<not> isUserAllowlisted (allowlist this) a) rawAuthors)
         \<and> (\<forall>rawAuthors.
               payloadAction (settings this) \<noteq> ''closed''
               \<and> (payloadAction (settings this) = ''issue_comment''
                    \<longrightarrow> issue_pull_request (github_context this))
               \<and> getAuthors (pullAuthors this) = Inr rawAuthors
               \<and> filter (\<lambda>a. \<not> isUserAllowlisted (allowlist this) a) rawAuthors \<noteq> []
               \<longrightarrow> CoreDebug (''Authors: '' @ join '', ''
                      (map name (filter (\<lambda>a. \<not> isUserAllowlisted (allowlist this) a) rawAuthors)))
                     \<in> set (fst (execute this)))"
proof -
  from assms
  have members: "(getOrganizationMembers (settings this) :: ('m, string list) promise) = ([], Inr [])"
    by (simp add: getOrganizationMembers_def resolve_def)
  have filter_eq: "requiredAuthors_of (allowlist this) rawAuthors [] =
      filter (\<lambda>a. \<not> isUserAllowlisted (allowlist this) a) rawAuthors" for rawAuthors
    by (simp add: requiredAuthors_of_def)
  have reported: "CoreDebug (''Authors: '' @ join '', ''
        (map name (filter (\<lambda>a. \<not> isUserAllowlisted (allowlist this) a) rawAuthors)))
      \<in> set (fst (execute this))"
    if "payloadAction (settings this) \<noteq> ''closed''"
      and "payloadAction (settings this) = ''issue_comment''
             \<longrightarrow> issue_pull_request (github_context this)"
      and "getAuthors (pullAuthors this) = Inr rawAuthors"
      and "filter (\<lambda>a. \<not> isUserAllowlisted (allowlist this) a) rawAuthors \<noteq> []"
    for rawAuthors
    using that
    by (simp add: execute_def members fst_await snd_await fst_basic filter_eq
          promise_all2_def invoke_def filter_required_def core_debug_def)
  from members execute_no_listMembers [OF assms] filter_eq reported show ?thesis
    by blast
qed

theorem organization_exemption_disabled_witness:
  "(getOrganizationMembers
      (settings (members_disabled (scenario ''opened'' None [alice, carol] [] [])))
      :: ((Author \<times> bool) list, string list) promise) = ([], Inr [])
   \<and> OrgsListMembers ''acme''
       \<notin> set (fst (execute (members_disabled (scenario ''opened'' None [alice, carol] [] []))))
   \<and> requiredAuthors_of
         (allowlist (members_disabled (scenario ''opened'' None [alice, carol] [] [])))
         [alice, carol] [] = [alice, carol]
   \<and> CoreDebug ''Authors: alice, carol''
       \<in> set (fst (execute (members_disabled (scenario ''opened'' None [alice, carol] [] []))))"
  using organization_exemption_disabled
          [of "members_disabled (scenario ''opened'' None [alice, carol] [] [])"]
  by (simp add: scenario_defs)

end
